theory Spec2Isabelle
  imports Complex_Main "HOL-Library.Word"
begin

unbundle bit_operations_syntax

section \<open>The data layer: sightings, validations, profiles\<close>

text \<open>
  The tables of \<^verbatim>\<open>supabase/migrations/20260129210000_validations_profiles_status.sql\<close>
  (on top of the v1 schema it migrates). A table with a primary key is a map from the key
  to the row; \<^verbatim>\<open>validations\<close> is the list of its rows in insertion order (its generated
  \<^verbatim>\<open>id\<close> and \<^verbatim>\<open>created_at\<close> are never read by the code below and are left out, a row
  is addressed by its position). Columns that no function below reads
  (\<^verbatim>\<open>created_at\<close>, \<^verbatim>\<open>event_time\<close>, \<^verbatim>\<open>activity_type\<close>, \<^verbatim>\<open>notes\<close>) are left out of
  \<^verbatim>\<open>sightings\<close>. \<^verbatim>\<open>media\<close> is a JSON array (the insert policy demands
  \<^verbatim>\<open>jsonb_typeof(media) = 'array'\<close>, the client type is an array). Of \<^verbatim>\<open>auth.users\<close>,
  which \<^verbatim>\<open>validations.validator_id\<close> references, the store keeps the ids of the
  accounts that exist.
\<close>

type_synonym uuid = string

datatype sighting_status = Unverified | Verified | Active | Confirmed

datatype profile_role = anonymous | trusted | admin

record media_item =
  path :: string
  mime_type :: string

record sighting =
  lat :: real
  lng :: real
  media :: "media_item list"
  status :: sighting_status
  validations_count :: int

record validation =
  sighting_id :: uuid
  validator_hash :: "string option"
  validator_lat :: "real option"
  validator_lng :: "real option"
  validator_id :: "uuid option"
  device_fingerprint :: "string option"
  is_within_range :: bool

record db =
  sightings :: "uuid \<rightharpoonup> sighting"
  validations :: "validation list"
  profiles :: "uuid \<rightharpoonup> profile_role"
  auth_users :: "uuid list"

section \<open>Status promotion: the trigger function\<close>

text \<open>
  \<^verbatim>\<open>recompute_sighting_validations()\<close> of the migration (the definition that replaces the
  v1 one). \<^verbatim>\<open>v_sighting_id\<close> is \<^verbatim>\<open>coalesce(new.sighting_id, old.sighting_id)\<close>, passed
  in by the trigger. A sighting that does not exist reads \<^verbatim>\<open>NULL\<close> as its status, the
  comparison with \<^verbatim>\<open>'confirmed'\<close> is then not true, and the \<^verbatim>\<open>UPDATE\<close> finds no row.
  The \<^verbatim>\<open>UPDATE\<close> keeps its own guard \<^verbatim>\<open>status != 'confirmed'\<close> after the early return.
  \<open>status_case\<close> is the \<^verbatim>\<open>CASE\<close> expression of the \<^verbatim>\<open>UPDATE\<close>, in its order.
\<close>

definition count_validations :: "uuid \<Rightarrow> db \<Rightarrow> int" where
  "count_validations v_sighting_id d =
     int (length (filter (\<lambda>v. sighting_id v = v_sighting_id) (validations d)))"

definition status_case :: "int \<Rightarrow> int \<Rightarrow> sighting_status" where
  "status_case v_count v_media_len =
     (if v_count \<ge> 3 then Verified
      else if v_media_len > 0 \<and> v_count \<ge> 2 then Verified
      else Unverified)"

definition recompute_sighting_validations :: "uuid \<Rightarrow> db \<Rightarrow> db" where
  "recompute_sighting_validations v_sighting_id d =
     (let v_current_status = map_option status (sightings d v_sighting_id) in
      if v_current_status = Some Confirmed then d
      else
        let v_count = count_validations v_sighting_id d in
        (case sightings d v_sighting_id of
           None \<Rightarrow> d
         | Some s \<Rightarrow>
             let v_media_len = int (length (media s)) in
             if status s = Confirmed then d
             else d\<lparr>sightings := (sightings d)(v_sighting_id \<mapsto>
                    s\<lparr>validations_count := v_count,
                      status := status_case v_count v_media_len\<rparr>)\<rparr>))"

text \<open>
  The threshold as the drawer computes it for display
  (\<^verbatim>\<open>validationThreshold = sighting.media?.length ? 2 : 3\<close>), which is the specification's
  \<^verbatim>\<open>effectiveThreshold := 2 if mediaCount > 0 else 3\<close>.
\<close>

definition validationThreshold :: "sighting \<Rightarrow> int" where
  "validationThreshold s = (if length (media s) \<noteq> 0 then 2 else 3)"

section \<open>Writing to \<^verbatim>\<open>validations\<close>: policies, constraints, triggers\<close>

text \<open>
  An \<^verbatim>\<open>INSERT\<close> by the \<^verbatim>\<open>anon\<close> or \<^verbatim>\<open>authenticated\<close> role. PostgreSQL evaluates the
  row-level \<^verbatim>\<open>WITH CHECK\<close> policy, then the \<^verbatim>\<open>CHECK\<close> constraints, then enters the row
  in the unique indexes, then runs the row's \<^verbatim>\<open>AFTER INSERT\<close> triggers (the two foreign
  keys and \<^verbatim>\<open>validations_after_insert_recompute\<close>); an error at any step aborts the
  statement and leaves the tables as they were. The error is named by its SQLSTATE.
\<close>

datatype pg_error =
    insufficient_privilege   \<comment> \<open>42501, a row-level policy refused the row\<close>
  | check_violation          \<comment> \<open>23514\<close>
  | unique_violation         \<comment> \<open>23505\<close>
  | foreign_key_violation    \<comment> \<open>23503\<close>
  | not_null_violation       \<comment> \<open>23502\<close>
  | invalid_object_definition  \<comment> \<open>42P17, infinite recursion detected in a policy\<close>

definition char_length_between :: "string \<Rightarrow> nat \<Rightarrow> nat \<Rightarrow> bool" where
  "char_length_between t lo hi = (lo \<le> length t \<and> length t \<le> hi)"

text \<open>Policy \<^verbatim>\<open>validations_insert_anon\<close> as the migration re-creates it.\<close>

definition validations_insert_anon :: "validation \<Rightarrow> bool" where
  "validations_insert_anon new =
     (case device_fingerprint new of
        None \<Rightarrow> False
      | Some f \<Rightarrow> char_length_between f 16 256)"

text \<open>
  \<^verbatim>\<open>validations_device_fingerprint_len_chk\<close> and the v1 constraint
  \<^verbatim>\<open>validations_validator_hash_len_chk\<close>; a \<^verbatim>\<open>CHECK\<close> whose value is \<^verbatim>\<open>NULL\<close> passes.
\<close>

definition validations_device_fingerprint_len_chk :: "validation \<Rightarrow> bool" where
  "validations_device_fingerprint_len_chk new =
     (case device_fingerprint new of
        None \<Rightarrow> True
      | Some f \<Rightarrow> length f \<ge> 16 \<and> length f \<le> 256)"

definition validations_validator_hash_len_chk :: "validation \<Rightarrow> bool" where
  "validations_validator_hash_len_chk new =
     (case validator_hash new of
        None \<Rightarrow> True
      | Some h \<Rightarrow> char_length_between h 16 256)"

text \<open>
  The partial unique indexes \<^verbatim>\<open>validations_unique_device_per_sighting\<close>
  (\<^verbatim>\<open>where device_fingerprint is not null\<close>) and \<^verbatim>\<open>validations_unique_hash_per_sighting\<close>
  (\<^verbatim>\<open>where validator_hash is not null\<close>): would the new row collide with a stored one.
\<close>

definition collides_device_per_sighting :: "validation \<Rightarrow> validation list \<Rightarrow> bool" where
  "collides_device_per_sighting new rows =
     (case device_fingerprint new of
        None \<Rightarrow> False
      | Some f \<Rightarrow>
          list_ex (\<lambda>r. sighting_id r = sighting_id new \<and> device_fingerprint r = Some f) rows)"

definition collides_hash_per_sighting :: "validation \<Rightarrow> validation list \<Rightarrow> bool" where
  "collides_hash_per_sighting new rows =
     (case validator_hash new of
        None \<Rightarrow> False
      | Some h \<Rightarrow>
          list_ex (\<lambda>r. sighting_id r = sighting_id new \<and> validator_hash r = Some h) rows)"

text \<open>
  The foreign key \<^verbatim>\<open>validator_id uuid references auth.users(id)\<close>: a row that names a
  validator needs that account to exist; \<^verbatim>\<open>NULL\<close> references nothing.
\<close>

definition validator_account_exists :: "uuid option \<Rightarrow> db \<Rightarrow> bool" where
  "validator_account_exists user d =
     (case user of
        None \<Rightarrow> True
      | Some u \<Rightarrow> u \<in> set (auth_users d))"

definition insert_validation :: "validation \<Rightarrow> db \<Rightarrow> pg_error + db" where
  "insert_validation new d =
     (if \<not> validations_insert_anon new then Inl insufficient_privilege
      else if \<not> validations_device_fingerprint_len_chk new then Inl check_violation
      else if \<not> validations_validator_hash_len_chk new then Inl check_violation
      else if collides_device_per_sighting new (validations d) then Inl unique_violation
      else if collides_hash_per_sighting new (validations d) then Inl unique_violation
      else if sightings d (sighting_id new) = None then Inl foreign_key_violation
      else if \<not> validator_account_exists (validator_id new) d then Inl foreign_key_violation
      else Inr (recompute_sighting_validations (sighting_id new)
                 (d\<lparr>validations := validations d @ [new]\<rparr>)))"

text \<open>
  A \<^verbatim>\<open>DELETE\<close> of the row at position \<open>i\<close>, by a role that may delete (no policy lets
  \<^verbatim>\<open>anon\<close> or \<^verbatim>\<open>authenticated\<close> delete a validation), followed by
  \<^verbatim>\<open>validations_after_delete_recompute\<close> with \<^verbatim>\<open>old.sighting_id\<close>. Out of range, no row
  is deleted and no trigger runs.
\<close>

definition delete_validation :: "nat \<Rightarrow> db \<Rightarrow> db" where
  "delete_validation i d =
     (if i < length (validations d)
      then recompute_sighting_validations (sighting_id (validations d ! i))
             (d\<lparr>validations := take i (validations d) @ drop (Suc i) (validations d)\<rparr>)
      else d)"

text \<open>A history of writes to \<^verbatim>\<open>validations\<close>; a refused insert changes nothing.\<close>

datatype validation_op = InsertValidation validation | DeleteValidation nat

fun apply_validation_op :: "validation_op \<Rightarrow> db \<Rightarrow> db" where
  "apply_validation_op (InsertValidation new) d =
     (case insert_validation new d of Inl e \<Rightarrow> d | Inr d' \<Rightarrow> d')"
| "apply_validation_op (DeleteValidation i) d = delete_validation i d"

fun apply_validation_ops :: "validation_op list \<Rightarrow> db \<Rightarrow> db" where
  "apply_validation_ops [] d = d"
| "apply_validation_ops (x # xs) d = apply_validation_ops xs (apply_validation_op x d)"

section \<open>Writing to \<^verbatim>\<open>sightings\<close>: the trusted-verifier policy\<close>

text \<open>
  Row-level security is enabled on all three tables. When a statement of a role other
  than the owner reads a relation, PostgreSQL's rewriter adds the relation's \<^verbatim>\<open>SELECT\<close>
  policies to the query, and does the same for every relation that a policy expression
  reads in a sub-select, keeping the relations whose policies it is expanding; meeting
  one of them again is the error 42P17, \<^verbatim>\<open>infinite recursion detected in policy for
  relation\<close>, raised before any row is looked at. \<open>select_policy_reads\<close> lists, for each
  relation, what the sub-selects of its \<^verbatim>\<open>SELECT\<close> policies read:
  \<^item> \<^verbatim>\<open>sightings_read_anon\<close> and \<^verbatim>\<open>validations_read_anon\<close> are \<^verbatim>\<open>using (true)\<close>;
  \<^item> \<^verbatim>\<open>profiles_select_own_or_admin\<close> is
    \<^verbatim>\<open>auth.uid() = id or exists (select 1 from public.profiles p where ...)\<close>: it reads
    \<^verbatim>\<open>profiles\<close> itself.
  Three relations need at most three steps to close a cycle.
\<close>

datatype relation = Sightings | Validations | Profiles

fun select_policy_reads :: "relation \<Rightarrow> relation list" where
  "select_policy_reads Sightings = []"
| "select_policy_reads Validations = []"
| "select_policy_reads Profiles = [Profiles]"

fun policy_recursion :: "nat \<Rightarrow> relation list \<Rightarrow> relation \<Rightarrow> bool" where
  "policy_recursion 0 active r = (r \<in> set active)"
| "policy_recursion (Suc k) active r =
     (r \<in> set active \<or> list_ex (policy_recursion k (r # active)) (select_policy_reads r))"

definition read_under_rls :: "relation \<Rightarrow> pg_error option" where
  "read_under_rls r = (if policy_recursion 3 [] r then Some invalid_object_definition else None)"

text \<open>
  Policy \<^verbatim>\<open>sightings_update_trusted\<close> is the only \<^verbatim>\<open>UPDATE\<close> policy on \<^verbatim>\<open>sightings\<close>; it is
  granted \<^verbatim>\<open>to authenticated\<close>, and its \<^verbatim>\<open>USING\<close> and \<^verbatim>\<open>WITH CHECK\<close> expressions are the
  same: \<^verbatim>\<open>exists (select 1 from public.profiles p where p.id = auth.uid() and p.role in
  ('trusted', 'admin'))\<close>. The sub-select runs as the caller, so it reads \<^verbatim>\<open>profiles\<close>
  under that table's policies; were they expanded without error, the caller's own
  profile row would be visible to it (\<^verbatim>\<open>auth.uid() = id\<close>).
\<close>

definition sightings_update_trusted :: "uuid \<Rightarrow> db \<Rightarrow> pg_error + bool" where
  "sightings_update_trusted u d =
     (case read_under_rls Profiles of
        Some e \<Rightarrow> Inl e
      | None \<Rightarrow>
          Inr (case profiles d u of
                 None \<Rightarrow> False
               | Some r \<Rightarrow> r = trusted \<or> r = admin))"

text \<open>
  \<^verbatim>\<open>supabase.from('sightings').update({ status }).eq('id', sid)\<close>, sent with the caller's
  session: \<open>None\<close> is the role \<^verbatim>\<open>anon\<close>, to which no \<^verbatim>\<open>UPDATE\<close> policy applies, so that
  no row is visible to the statement and none is updated, without an error. For a
  signed-in caller PostgreSQL applies the \<^verbatim>\<open>USING\<close> expression as a filter on the rows
  the statement may see: a row it excludes is not updated and no error is raised. A row
  that was updated is then tested against \<^verbatim>\<open>WITH CHECK\<close>, whose failure is an error.
\<close>

definition update_sighting_status ::
  "uuid option \<Rightarrow> uuid \<Rightarrow> sighting_status \<Rightarrow> db \<Rightarrow> pg_error + db" where
  "update_sighting_status uid sid new_status d =
     (case uid of
        None \<Rightarrow> Inr d
      | Some u \<Rightarrow>
          (case sightings_update_trusted u d of
             Inl e \<Rightarrow> Inl e
           | Inr visible \<Rightarrow>
               (case sightings d sid of
                  None \<Rightarrow> Inr d
                | Some s \<Rightarrow>
                    if \<not> visible then Inr d
                    else
                      let d' = d\<lparr>sightings := (sightings d)(sid \<mapsto> s\<lparr>status := new_status\<rparr>)\<rparr>
                      in (case sightings_update_trusted u d' of
                            Inl e \<Rightarrow> Inl e
                          | Inr allowed \<Rightarrow>
                              if allowed then Inr d' else Inl insufficient_privilege))))"

section \<open>The sighting drawer\<close>

text \<open>
  The component state of \<^verbatim>\<open>SightingDrawer\<close> and its two handlers. The messages the
  handlers display are named by the rejection they report:
  \<^item> \<open>OUT_OF_RANGE\<close>: \<^verbatim>\<open>You must be within 500 meters to validate this sighting.\<close>
  \<^item> \<open>DUPLICATE_DEVICE\<close>: \<^verbatim>\<open>You have already validated this sighting.\<close>
  \<^item> \<open>GEOLOCATION_DENIED\<close>: \<^verbatim>\<open>Location permission denied. Please enable location access to validate.\<close>
  \<^item> \<open>GEOLOCATION_UNAVAILABLE\<close>: \<^verbatim>\<open>Unable to get your location. Please try again.\<close>
  \<^item> \<open>FAILED\<close>: the thrown error's message, or \<^verbatim>\<open>Failed to validate sighting.\<close>

  The store is taken to be reachable: a transport failure, which the handlers would
  report like any other error, is not among the errors below.
\<close>

datatype geo_error = PERMISSION_DENIED | POSITION_UNAVAILABLE | TIMEOUT

datatype thrown = PostgrestError pg_error | FingerprintError

datatype validation_error =
    OUT_OF_RANGE
  | DUPLICATE_DEVICE
  | GEOLOCATION_DENIED
  | GEOLOCATION_UNAVAILABLE
  | FAILED thrown

record drawer =
  validating :: bool
  validationError :: "validation_error option"
  validationSuccess :: bool
  confirming :: bool
  confirmError :: "pg_error option"
  confirmSuccess :: bool

definition drawer_init :: drawer where
  "drawer_init =
     \<lparr>validating = False, validationError = None, validationSuccess = False,
      confirming = False, confirmError = None, confirmSuccess = False\<rparr>"

text \<open>
  \<^verbatim>\<open>handleValidate\<close> (the current drawer). Its inputs besides the component state and the
  store: the \<^verbatim>\<open>sighting\<close> prop (the client's copy of the row, with its id), the signed-in
  user's id if any, what \<^verbatim>\<open>getCurrentPosition\<close> answered (an error, or latitude and
  longitude), and what \<^verbatim>\<open>getDeviceFingerprint\<close> answered (\<open>None\<close> when the library
  throws). \<^verbatim>\<open>isWithinProximity\<close> is imported from \<^verbatim>\<open>lib/geo/haversine\<close>, floating-point
  code of another module; it is a parameter here. The handler runs to its end without
  interleaving: what happens between two of its \<^verbatim>\<open>await\<close>s is not modelled.
\<close>

type_synonym proximity = "real \<Rightarrow> real \<Rightarrow> real \<Rightarrow> real \<Rightarrow> real \<Rightarrow> bool"

definition handleValidate ::
  "proximity \<Rightarrow> (uuid \<times> sighting) option \<Rightarrow> uuid option \<Rightarrow> geo_error + real \<times> real \<Rightarrow>
   string option \<Rightarrow> drawer \<Rightarrow> db \<Rightarrow> drawer \<times> db" where
  "handleValidate isWithinProximity sighting user position fingerprint ui d =
     (case sighting of
        None \<Rightarrow> (ui, d)
      | Some (sid, s) \<Rightarrow>
          if validating ui \<or> validationSuccess ui then (ui, d)
          else
            let ui1 = ui\<lparr>validating := True, validationError := None\<rparr> in
            (case position of
               Inl err \<Rightarrow>
                 (ui1\<lparr>validationError :=
                        Some (if err = PERMISSION_DENIED then GEOLOCATION_DENIED
                              else GEOLOCATION_UNAVAILABLE),
                      validating := False\<rparr>, d)
             | Inr (userLat, userLng) \<Rightarrow>
                 if \<not> isWithinProximity userLat userLng (lat s) (lng s) 500
                 then (ui1\<lparr>validationError := Some OUT_OF_RANGE, validating := False\<rparr>, d)
                 else
                   (case fingerprint of
                      None \<Rightarrow>
                        (ui1\<lparr>validationError := Some (FAILED FingerprintError),
                             validating := False\<rparr>, d)
                    | Some deviceFingerprint \<Rightarrow>
                        (case insert_validation
                                \<lparr>sighting_id = sid, validator_hash = None,
                                 validator_lat = None, validator_lng = None,
                                 validator_id = user,
                                 device_fingerprint = Some deviceFingerprint,
                                 is_within_range = True\<rparr> d of
                           Inl error \<Rightarrow>
                             if error = unique_violation
                             then (ui1\<lparr>validationError := Some DUPLICATE_DEVICE,
                                       validating := False\<rparr>, d)
                             else (ui1\<lparr>validationError := Some (FAILED (PostgrestError error)),
                                       validating := False\<rparr>, d)
                         | Inr d' \<Rightarrow>
                             (ui1\<lparr>validationSuccess := True, validating := False\<rparr>, d')))))"

text \<open>
  \<^verbatim>\<open>handleConfirm\<close>: the update is sent with the session of \<open>user\<close>; the handler itself
  tests neither the role nor the sighting's status or count. (The component renders the
  button that calls it only for a verified, unconfirmed sighting and a client-side role of
  \<^verbatim>\<open>trusted\<close> or \<^verbatim>\<open>admin\<close>.) The message it shows on failure is the error's.
\<close>

definition handleConfirm ::
  "(uuid \<times> sighting) option \<Rightarrow> uuid option \<Rightarrow> drawer \<Rightarrow> db \<Rightarrow> drawer \<times> db" where
  "handleConfirm sighting user ui d =
     (case sighting of
        None \<Rightarrow> (ui, d)
      | Some (sid, s) \<Rightarrow>
          if confirming ui \<or> confirmSuccess ui then (ui, d)
          else
            let ui1 = ui\<lparr>confirming := True, confirmError := None\<rparr> in
            (case update_sighting_status user sid Confirmed d of
               Inl error \<Rightarrow> (ui1\<lparr>confirmError := Some error, confirming := False\<rparr>, d)
             | Inr d' \<Rightarrow> (ui1\<lparr>confirmSuccess := True, confirming := False\<rparr>, d')))"

text \<open>
  The row \<^verbatim>\<open>handleValidate\<close> sends to \<^verbatim>\<open>insert\<close>, named for the statements below, and
  the invariant of the index \<^verbatim>\<open>validations_unique_device_per_sighting\<close>: among the rows
  that carry a device fingerprint, no two agree on sighting and fingerprint.
\<close>

definition drawer_row :: "uuid \<Rightarrow> uuid option \<Rightarrow> string \<Rightarrow> validation" where
  "drawer_row sid user f =
     \<lparr>sighting_id = sid, validator_hash = None, validator_lat = None, validator_lng = None,
      validator_id = user, device_fingerprint = Some f, is_within_range = True\<rparr>"

definition rows_of_device :: "uuid \<Rightarrow> string \<Rightarrow> validation list \<Rightarrow> validation list" where
  "rows_of_device sid f rows =
     filter (\<lambda>r. sighting_id r = sid \<and> device_fingerprint r = Some f) rows"

definition unique_device_per_sighting :: "validation list \<Rightarrow> bool" where
  "unique_device_per_sighting rows =
     distinct (map (\<lambda>r. (sighting_id r, device_fingerprint r))
                   (filter (\<lambda>r. device_fingerprint r \<noteq> None) rows))"

section \<open>Device identity: the validator hash\<close>

text \<open>
  \<^verbatim>\<open>Number.prototype.toString(radix)\<close> on an integer: the digits \<^verbatim>\<open>0-9a-z\<close>, most
  significant first, with a minus sign for a negative number. The code calls it with
  radix 36, and with radix 10 when it appends \<^verbatim>\<open>Date.now()\<close> to a string (a radix
  outside 2 to 36 is a \<^verbatim>\<open>RangeError\<close> in the source and is never passed).
\<close>

definition digit_char :: "nat \<Rightarrow> char" where
  "digit_char k = ''0123456789abcdefghijklmnopqrstuvwxyz'' ! k"

function digits_radix :: "int \<Rightarrow> int \<Rightarrow> string" where
  "digits_radix b n =
     (if b < 2 \<or> n < b then [digit_char (nat n)]
      else digits_radix b (n div b) @ [digit_char (nat (n mod b))])"
  by pat_completeness auto
termination
proof (relation "measure (\<lambda>(b, n). nat n)")
  show "wf (measure (\<lambda>(b, n). nat n))" by simp
next
  fix b n :: int
  assume "\<not> (b < 2 \<or> n < b)"
  then have "2 \<le> b" and "b \<le> n" by simp_all
  then have "n div b < n" by (simp add: int_div_less_self)
  moreover have "0 \<le> n div b" using \<open>2 \<le> b\<close> \<open>b \<le> n\<close> by (simp add: pos_imp_zdiv_nonneg_iff)
  ultimately show "((b, n div b), (b, n)) \<in> measure (\<lambda>(b, n). nat n)" by simp
qed

declare digits_radix.simps [simp del]

definition toString_radix :: "int \<Rightarrow> int \<Rightarrow> string" where
  "toString_radix b x =
     (if x < 0 then CHR ''-'' # digits_radix b (- x) else digits_radix b x)"

text \<open>
  The loop of \<^verbatim>\<open>generateValidatorHash\<close>:
  \<^verbatim>\<open>hash = (hash << 5) - hash + char; hash = hash & hash\<close>. The bitwise operators work on
  32-bit integers, and the sum in between is exact, so the loop is arithmetic modulo
  \<open>2 ^ 32\<close>; \<^verbatim>\<open>charCodeAt\<close> is the character's code (tokens and sighting ids are
  ASCII: UUIDs, digits, a hyphen and a colon).
\<close>

fun hash_loop :: "string \<Rightarrow> 32 word \<Rightarrow> 32 word" where
  "hash_loop [] hash = hash"
| "hash_loop (c # cs) hash =
     (let char = (of_nat (of_char c) :: 32 word);
          hash1 = push_bit 5 hash - hash + char
      in hash_loop cs (hash1 AND hash1))"

text \<open>
  The browser as \<^verbatim>\<open>generateValidatorHash\<close> sees it: whether \<^verbatim>\<open>window\<close> is defined, and
  the item \<^verbatim>\<open>ice_out_validator_token\<close> of \<^verbatim>\<open>localStorage\<close>. The function also reads
  \<^verbatim>\<open>crypto.randomUUID()\<close> and the clock, \<^verbatim>\<open>Date.now()\<close>, once when it creates a token
  (\<open>now_token\<close>) and once for the suffix of its result (\<open>now\<close>). An empty stored token is
  falsy and is replaced like a missing one. \<^verbatim>\<open>Math.abs\<close> is taken of the signed value.
\<close>

record browser =
  has_window :: bool
  stored_token :: "string option"

definition get_or_create_token :: "browser \<Rightarrow> string \<Rightarrow> int \<Rightarrow> string \<times> browser" where
  "get_or_create_token b randomUUID now_token =
     (case (if has_window b then stored_token b else None) of
        Some (c # cs) \<Rightarrow> (c # cs, b)
      | _ \<Rightarrow>
          let deviceToken = randomUUID @ ''-'' @ toString_radix 10 now_token
          in (deviceToken,
              if has_window b then b\<lparr>stored_token := Some deviceToken\<rparr> else b))"

definition generateValidatorHash ::
  "string \<Rightarrow> browser \<Rightarrow> string \<Rightarrow> int \<Rightarrow> int \<Rightarrow> string \<times> browser" where
  "generateValidatorHash sightingId b randomUUID now_token now =
     (let (deviceToken, b') = get_or_create_token b randomUUID now_token;
          combined = deviceToken @ '':'' @ sightingId;
          hash = hash_loop combined 0
      in (toString_radix 36 \<bar>sint hash\<bar> @ toString_radix 36 now, b'))"

section \<open>The earlier drawer and the v1 schema\<close>

text \<open>
  The sources keep the first version of the drawer, which identifies the device by
  \<^verbatim>\<open>generateValidatorHash\<close>, and the v1 schema it was written for. In v1 the insert
  policy \<^verbatim>\<open>validations_insert_anon\<close> and the constraint
  \<^verbatim>\<open>validations_validator_hash_len_chk\<close> demand a \<^verbatim>\<open>validator_hash\<close> of 16 to 256
  characters, the column is \<^verbatim>\<open>NOT NULL\<close>, the unique index is on
  \<^verbatim>\<open>(sighting_id, validator_hash)\<close>, and the trigger function knows neither media nor
  \<^verbatim>\<open>'confirmed'\<close>.
\<close>

definition validations_insert_anon_v1 :: "validation \<Rightarrow> bool" where
  "validations_insert_anon_v1 new =
     (case validator_hash new of
        None \<Rightarrow> False
      | Some h \<Rightarrow> char_length_between h 16 256)"

definition recompute_sighting_validations_v1 :: "uuid \<Rightarrow> db \<Rightarrow> db" where
  "recompute_sighting_validations_v1 v_sighting_id d =
     (let v_count = count_validations v_sighting_id d in
      case sightings d v_sighting_id of
        None \<Rightarrow> d
      | Some s \<Rightarrow>
          d\<lparr>sightings := (sightings d)(v_sighting_id \<mapsto>
               s\<lparr>validations_count := v_count,
                 status := (if v_count \<ge> 3 then Verified else Unverified)\<rparr>)\<rparr>)"

definition insert_validation_v1 :: "validation \<Rightarrow> db \<Rightarrow> pg_error + db" where
  "insert_validation_v1 new d =
     (if \<not> validations_insert_anon_v1 new then Inl insufficient_privilege
      else if validator_hash new = None then Inl not_null_violation
      else if \<not> validations_validator_hash_len_chk new then Inl check_violation
      else if collides_hash_per_sighting new (validations d) then Inl unique_violation
      else if sightings d (sighting_id new) = None then Inl foreign_key_violation
      else Inr (recompute_sighting_validations_v1 (sighting_id new)
                 (d\<lparr>validations := validations d @ [new]\<rparr>)))"

text \<open>
  The earlier \<^verbatim>\<open>handleValidate\<close>. The component renders nothing without a sighting, so
  the handler always has one; of the component state it uses the three validation
  fields. The store's insert is a parameter (\<open>insert_row\<close>): that of the v1 schema the
  handler was written for, or that of the migrated one. The columns the migration adds
  take their defaults. \<^verbatim>\<open>Math.round(x * 100) / 100\<close> is floating-point arithmetic; it is
  the parameter \<open>round_2dp\<close>.
\<close>

definition handleValidate_legacy ::
  "(validation \<Rightarrow> db \<Rightarrow> pg_error + db) \<Rightarrow> proximity \<Rightarrow> (real \<Rightarrow> real) \<Rightarrow>
   uuid \<times> sighting \<Rightarrow> geo_error + real \<times> real \<Rightarrow> browser \<Rightarrow> string \<Rightarrow> int \<Rightarrow> int \<Rightarrow>
   drawer \<Rightarrow> db \<Rightarrow> drawer \<times> browser \<times> db" where
  "handleValidate_legacy insert_row isWithinProximity round_2dp sighting position b randomUUID
       now_token now ui d =
     (case sighting of
        (sid, s) \<Rightarrow>
          if validating ui \<or> validationSuccess ui then (ui, b, d)
          else
            let ui1 = ui\<lparr>validating := True, validationError := None\<rparr> in
            (case position of
               Inl err \<Rightarrow>
                 (ui1\<lparr>validationError :=
                        Some (if err = PERMISSION_DENIED then GEOLOCATION_DENIED
                              else GEOLOCATION_UNAVAILABLE),
                      validating := False\<rparr>, b, d)
             | Inr (userLat, userLng) \<Rightarrow>
                 if \<not> isWithinProximity userLat userLng (lat s) (lng s) 500
                 then (ui1\<lparr>validationError := Some OUT_OF_RANGE, validating := False\<rparr>, b, d)
                 else
                   (case generateValidatorHash sid b randomUUID now_token now of
                      (validatorHash, b') \<Rightarrow>
                        (case insert_row
                                \<lparr>sighting_id = sid, validator_hash = Some validatorHash,
                                 validator_lat = Some (round_2dp userLat),
                                 validator_lng = Some (round_2dp userLng),
                                 validator_id = None, device_fingerprint = None,
                                 is_within_range = True\<rparr> d of
                           Inl error \<Rightarrow>
                             if error = unique_violation
                             then (ui1\<lparr>validationError := Some DUPLICATE_DEVICE,
                                       validating := False\<rparr>, b', d)
                             else (ui1\<lparr>validationError := Some (FAILED (PostgrestError error)),
                                       validating := False\<rparr>, b', d)
                         | Inr d' \<Rightarrow>
                             (ui1\<lparr>validationSuccess := True, validating := False\<rparr>, b', d')))))"

section \<open>Submissions through either drawer\<close>

text \<open>
  A call of the current drawer's handler or of the earlier one, with everything the
  handler reads, against the migrated store; a history of such calls threads the store
  through them. \<open>no_coordinates\<close> says of a list of validation rows that none carries a
  latitude or a longitude.
\<close>

datatype submission =
    CurrentDrawer "(uuid \<times> sighting) option" "uuid option" "geo_error + real \<times> real"
      "string option" drawer
  | EarlierDrawer "uuid \<times> sighting" "geo_error + real \<times> real" browser string int int drawer

fun submit :: "proximity \<Rightarrow> (real \<Rightarrow> real) \<Rightarrow> submission \<Rightarrow> db \<Rightarrow> db" where
  "submit isWithinProximity round_2dp (CurrentDrawer sighting user position fingerprint ui) d =
     snd (handleValidate isWithinProximity sighting user position fingerprint ui d)"
| "submit isWithinProximity round_2dp
       (EarlierDrawer sighting position b randomUUID now_token now ui) d =
     snd (snd (handleValidate_legacy insert_validation isWithinProximity round_2dp sighting
                 position b randomUUID now_token now ui d))"

fun submit_all :: "proximity \<Rightarrow> (real \<Rightarrow> real) \<Rightarrow> submission list \<Rightarrow> db \<Rightarrow> db" where
  "submit_all isWithinProximity round_2dp [] d = d"
| "submit_all isWithinProximity round_2dp (x # xs) d =
     submit_all isWithinProximity round_2dp xs (submit isWithinProximity round_2dp x d)"

definition no_coordinates :: "validation list \<Rightarrow> bool" where
  "no_coordinates rows =
     list_all (\<lambda>r. validator_lat r = None \<and> validator_lng r = None) rows"

section \<open>Concrete states\<close>

text \<open>
  Small states of the store on which the theorems below are instantiated: one sighting
  \<open>''s1''\<close> at the origin, with or without a media attachment, and validations by three
  devices.
\<close>

definition photo :: media_item where
  "photo = \<lparr>path = ''sightings/1.jpg'', mime_type = ''image/jpeg''\<rparr>"

definition sighting0 :: sighting where
  "sighting0 = \<lparr>lat = 0, lng = 0, media = [], status = Unverified, validations_count = 0\<rparr>"

definition device_a :: string where
  "device_a = ''a3f10c5be2d94477''"

definition device_b :: string where
  "device_b = ''b81e22d07c6f4a09''"

definition device_c :: string where
  "device_c = ''c05d9e1a47b32f68''"

definition validation_by :: "string \<Rightarrow> validation" where
  "validation_by f =
     \<lparr>sighting_id = ''s1'', validator_hash = None, validator_lat = None,
      validator_lng = None, validator_id = None, device_fingerprint = Some f,
      is_within_range = True\<rparr>"

definition store :: "sighting \<Rightarrow> validation list \<Rightarrow> db" where
  "store s vs =
     \<lparr>sightings = [''s1'' \<mapsto> s], validations = vs,
      profiles = [''u_admin'' \<mapsto> admin, ''u_trusted'' \<mapsto> trusted, ''u_anon'' \<mapsto> anonymous],
      auth_users = [''u_admin'', ''u_trusted'', ''u_anon'']\<rparr>"

text \<open>
  A stand-in for the proximity test, to instantiate the parameter: a square on a flat
  grid with 111 km to the degree.
\<close>

definition grid_proximity :: proximity where
  "grid_proximity aLat aLng bLat bLng radiusMeters =
     (\<bar>aLat - bLat\<bar> * 111000 \<le> radiusMeters \<and> \<bar>aLng - bLng\<bar> * 111000 \<le> radiusMeters)"

text \<open>
  A stand-in for the rounding to two decimals, to instantiate the parameter: the rounding
  of the exact number, a tie upwards. At the coordinate 0, where it is used below, it
  gives what the floating-point rounding gives.
\<close>

definition exact_round_2dp :: "real \<Rightarrow> real" where
  "exact_round_2dp x = real_of_int \<lfloor>x * 100 + 1 / 2\<rfloor> / 100"

text \<open>A browser that has stored its token, a sighting id, and a clock reading.\<close>

definition browser0 :: browser where
  "browser0 =
     \<lparr>has_window = True,
      stored_token = Some ''3b241101-e2bb-4255-8caf-4136c566a962-1769720400000''\<rparr>"

definition sighting_uuid :: uuid where
  "sighting_uuid = ''7c9e6679-7425-40de-944b-e07fc1f90ae7''"

definition clock0 :: int where
  "clock0 = 1769720400000"

section \<open>Properties of the status promotion\<close>

lemma store_sightings: "sightings (store s vs) ''s1'' = Some s"
  by (simp add: store_def)

lemma store_validations: "validations (store s vs) = vs"
  by (simp add: store_def)

lemma status_case_threshold:
  "status_case c (int (length (media s))) =
     (if c \<ge> validationThreshold s then Verified else Unverified)"
  by (auto simp: status_case_def validationThreshold_def)

lemma recompute_validations:
  "validations (recompute_sighting_validations x d) = validations d"
  by (simp add: recompute_sighting_validations_def Let_def split: option.splits)

lemma recompute_profiles:
  "profiles (recompute_sighting_validations x d) = profiles d"
  by (simp add: recompute_sighting_validations_def Let_def split: option.splits)

lemma recompute_other:
  "x \<noteq> sid \<Longrightarrow> sightings (recompute_sighting_validations x d) sid = sightings d sid"
  by (simp add: recompute_sighting_validations_def Let_def split: option.splits)

lemma recompute_confirmed_noop:
  "sightings d sid = Some s \<Longrightarrow> status s = Confirmed \<Longrightarrow>
   recompute_sighting_validations sid d = d"
  by (simp add: recompute_sighting_validations_def)

lemma recompute_keeps_confirmed:
  "sightings d sid = Some s \<Longrightarrow> status s = Confirmed \<Longrightarrow>
   sightings (recompute_sighting_validations x d) sid = Some s"
  by (cases "x = sid") (simp_all add: recompute_confirmed_noop recompute_other)

lemma apply_validation_op_keeps_confirmed:
  "sightings d sid = Some s \<Longrightarrow> status s = Confirmed \<Longrightarrow>
   sightings (apply_validation_op x d) sid = Some s"
  by (cases x)
     (auto simp: insert_validation_def delete_validation_def recompute_keeps_confirmed
           split: sum.splits if_splits)

text \<open>
  C1. For a sighting that is not confirmed, the recomputation stores the number of
  validation rows that reference it as \<open>validations_count\<close>, and as status
  \<open>Verified\<close> when that number reaches the threshold (2 with media, 3 without) and
  \<open>Unverified\<close> otherwise.
\<close>

theorem recompute_sets_count_and_status:
  assumes "sightings d sid = Some s" and "status s \<noteq> Confirmed"
  shows "sightings (recompute_sighting_validations sid d) sid =
           Some (s\<lparr>validations_count :=
                     int (length (filter (\<lambda>v. sighting_id v = sid) (validations d))),
                   status :=
                     (if int (length (filter (\<lambda>v. sighting_id v = sid) (validations d)))
                           \<ge> (if length (media s) > 0 then 2 else 3)
                      then Verified else Unverified)\<rparr>)"
  using assms
  by (simp add: recompute_sighting_validations_def Let_def count_validations_def
                status_case_def)

theorem recompute_sets_count_and_status_witness:
  "sightings (recompute_sighting_validations ''s1''
      (store (sighting0\<lparr>media := [photo]\<rparr>) [validation_by device_a, validation_by device_b]))
      ''s1''
     = Some (sighting0\<lparr>media := [photo], validations_count := 2, status := Verified\<rparr>)
   \<and> sightings (recompute_sighting_validations ''s1''
      (store sighting0 [validation_by device_a, validation_by device_b])) ''s1''
     = Some (sighting0\<lparr>validations_count := 2, status := Unverified\<rparr>)"
proof -
  have h: "status (sighting0\<lparr>media := [photo]\<rparr>) \<noteq> Confirmed"
    by (simp add: sighting0_def)
  have h': "status sighting0 \<noteq> Confirmed"
    by (simp add: sighting0_def)
  have "sightings (recompute_sighting_validations ''s1''
      (store (sighting0\<lparr>media := [photo]\<rparr>) [validation_by device_a, validation_by device_b]))
      ''s1''
     = Some (sighting0\<lparr>media := [photo], validations_count := 2, status := Verified\<rparr>)"
    using recompute_sets_count_and_status [OF store_sightings h,
            of "[validation_by device_a, validation_by device_b]"]
    by (simp add: store_validations validation_by_def)
  moreover have "sightings (recompute_sighting_validations ''s1''
      (store sighting0 [validation_by device_a, validation_by device_b])) ''s1''
     = Some (sighting0\<lparr>validations_count := 2, status := Unverified\<rparr>)"
    using recompute_sets_count_and_status [OF store_sightings h',
            of "[validation_by device_a, validation_by device_b]"]
    by (simp add: store_validations validation_by_def sighting0_def)
  ultimately show ?thesis by (rule conjI)
qed

text \<open>
  C2. For a confirmed sighting the recomputation changes nothing, and no history of
  inserted and deleted validations changes its row (status and count included).
\<close>

theorem confirmed_is_frozen:
  assumes "sightings d sid = Some s" and "status s = Confirmed"
  shows "recompute_sighting_validations sid d = d \<and>
         sightings (apply_validation_ops ops d) sid = Some s"
proof
  show "recompute_sighting_validations sid d = d"
    using assms by (rule recompute_confirmed_noop)
  show "sightings (apply_validation_ops ops d) sid = Some s"
    using assms
    by (induction ops arbitrary: d) (simp_all add: apply_validation_op_keeps_confirmed)
qed

theorem confirmed_is_frozen_witness:
  "recompute_sighting_validations ''s1''
      (store (sighting0\<lparr>status := Confirmed\<rparr>) [validation_by device_a])
     = store (sighting0\<lparr>status := Confirmed\<rparr>) [validation_by device_a]
   \<and> sightings (apply_validation_ops
        [InsertValidation (validation_by device_b), InsertValidation (validation_by device_c),
         DeleteValidation 0, InsertValidation (validation_by device_a)]
        (store (sighting0\<lparr>status := Confirmed\<rparr>) [validation_by device_a])) ''s1''
     = Some (sighting0\<lparr>status := Confirmed\<rparr>)"
proof -
  have h: "status (sighting0\<lparr>status := Confirmed\<rparr>) = Confirmed"
    by simp
  show ?thesis
    by (rule confirmed_is_frozen [OF store_sightings h])
qed


text \<open>
  C10. The recomputation is idempotent: run twice in a row on the same store, the second
  run returns the store the first one left, so count and status are those of the first
  run. It never changes the validation rows it counts.
\<close>

theorem recompute_idempotent:
  "recompute_sighting_validations sid (recompute_sighting_validations sid d)
     = recompute_sighting_validations sid d
   \<and> validations (recompute_sighting_validations sid d) = validations d"
proof
  show "recompute_sighting_validations sid (recompute_sighting_validations sid d)
          = recompute_sighting_validations sid d"
  proof (cases "sightings d sid")
    case None
    then show ?thesis by (simp add: recompute_sighting_validations_def)
  next
    case (Some s)
    show ?thesis
    proof (cases "status s = Confirmed")
      case True
      with Some show ?thesis by (simp add: recompute_confirmed_noop)
    next
      case False
      with Some show ?thesis
        by (simp add: recompute_sighting_validations_def Let_def count_validations_def)
    qed
  qed
  show "validations (recompute_sighting_validations sid d) = validations d"
    by (rule recompute_validations)
qed

section \<open>Deleting a validation\<close>

lemma filter_remove_nth:
  assumes "i < length vs" and "P (vs ! i)"
  shows "Suc (length (filter P (take i vs @ drop (Suc i) vs))) = length (filter P vs)"
proof -
  have "vs = take i vs @ vs ! i # drop (Suc i) vs"
    using assms(1) by (rule id_take_nth_drop)
  then have "filter P vs = filter P (take i vs) @ filter P (vs ! i # drop (Suc i) vs)"
    by (metis filter_append)
  with assms(2) show ?thesis by simp
qed

lemma count_after_delete:
  assumes "i < length (validations d)" and "sighting_id (validations d ! i) = sid"
  shows "count_validations sid (d\<lparr>validations := take i (validations d) @ drop (Suc i) (validations d)\<rparr>)
           = count_validations sid d - 1"
  using filter_remove_nth [of i "validations d" "\<lambda>v. sighting_id v = sid"] assms
  by (simp add: count_validations_def)

lemma delete_recomputes:
  assumes "i < length (validations d)"
    and "sighting_id (validations d ! i) = sid"
    and "sightings d sid = Some s"
    and "status s \<noteq> Confirmed"
  shows "sightings (delete_validation i d) sid =
           Some (s\<lparr>validations_count := count_validations sid d - 1,
                   status := (if count_validations sid d - 1 \<ge> validationThreshold s
                              then Verified else Unverified)\<rparr>)"
proof -
  let ?d = "d\<lparr>validations := take i (validations d) @ drop (Suc i) (validations d)\<rparr>"
  have a: "sightings ?d sid = Some s" using assms(3) by simp
  have "sightings (recompute_sighting_validations sid ?d) sid =
          Some (s\<lparr>validations_count := count_validations sid ?d,
                  status := status_case (count_validations sid ?d) (int (length (media s)))\<rparr>)"
    using a assms(4) by (simp add: recompute_sighting_validations_def Let_def)
  then show ?thesis
    using assms(1,2) by (simp add: delete_validation_def count_after_delete status_case_threshold)
qed

text \<open>
  C5, as the code has it. Every automatic recomputation of a verified sighting, after an
  insert or a delete, is the same recount, whose \<^verbatim>\<open>CASE\<close> ends in \<^verbatim>\<open>else 'unverified'\<close>:
  the sighting stays verified exactly when the current validations still reach the
  threshold, and goes back to unverified otherwise, in particular when a validation is
  deleted and the rest falls below it. The recomputation never writes \<open>Confirmed\<close>.
\<close>

theorem verified_follows_count:
  assumes "sightings d sid = Some s" and "status s = Verified"
  shows "sightings (recompute_sighting_validations sid d) sid =
           Some (s\<lparr>validations_count := count_validations sid d,
                   status := (if count_validations sid d \<ge> validationThreshold s
                              then Verified else Unverified)\<rparr>)
       \<and> (\<forall>i. i < length (validations d) \<and> sighting_id (validations d ! i) = sid \<longrightarrow>
             sightings (delete_validation i d) sid =
               Some (s\<lparr>validations_count := count_validations sid d - 1,
                       status := (if count_validations sid d - 1 \<ge> validationThreshold s
                                  then Verified else Unverified)\<rparr>))"
proof -
  have n: "status s \<noteq> Confirmed" using assms(2) by simp
  have "sightings (recompute_sighting_validations sid d) sid =
           Some (s\<lparr>validations_count := count_validations sid d,
                   status := (if count_validations sid d \<ge> validationThreshold s
                              then Verified else Unverified)\<rparr>)"
    using assms(1) n
    by (simp add: recompute_sighting_validations_def Let_def status_case_threshold)
  moreover have "sightings (delete_validation i d) sid =
               Some (s\<lparr>validations_count := count_validations sid d - 1,
                       status := (if count_validations sid d - 1 \<ge> validationThreshold s
                                  then Verified else Unverified)\<rparr>)"
    if "i < length (validations d)" and "sighting_id (validations d ! i) = sid" for i
    using that assms(1) n by (rule delete_recomputes)
  ultimately show ?thesis by blast
qed

theorem verified_follows_count_witness:
  "sightings (delete_validation 0
        (store (sighting0\<lparr>status := Verified, validations_count := 3\<rparr>)
           [validation_by device_a, validation_by device_b, validation_by device_c])) ''s1''
     = Some (sighting0\<lparr>status := Unverified, validations_count := 2\<rparr>)
   \<and> sightings (delete_validation 0
        (store (sighting0\<lparr>media := [photo], status := Verified, validations_count := 3\<rparr>)
           [validation_by device_a, validation_by device_b, validation_by device_c])) ''s1''
     = Some (sighting0\<lparr>media := [photo], status := Verified, validations_count := 2\<rparr>)"
proof -
  let ?vs = "[validation_by device_a, validation_by device_b, validation_by device_c]"
  have i: "0 < length (validations (store s ?vs))" for s
    by (simp add: store_def)
  have r: "sighting_id (validations (store s ?vs) ! 0) = ''s1''" for s
    by (simp add: store_def validation_by_def)
  have c: "count_validations ''s1'' (store s ?vs) = 3" for s
    by (simp add: count_validations_def store_def validation_by_def)
  have v: "status (sighting0\<lparr>status := Verified, validations_count := 3\<rparr>) = Verified"
    "status (sighting0\<lparr>media := [photo], status := Verified, validations_count := 3\<rparr>) = Verified"
    by simp_all
  have "sightings (delete_validation 0
        (store (sighting0\<lparr>status := Verified, validations_count := 3\<rparr>) ?vs)) ''s1''
     = Some (sighting0\<lparr>status := Unverified, validations_count := 2\<rparr>)"
    using verified_follows_count [OF store_sightings v(1), of ?vs] i r
    by (simp add: c validationThreshold_def sighting0_def)
  moreover have "sightings (delete_validation 0
        (store (sighting0\<lparr>media := [photo], status := Verified, validations_count := 3\<rparr>) ?vs)) ''s1''
     = Some (sighting0\<lparr>media := [photo], status := Verified, validations_count := 2\<rparr>)"
    using verified_follows_count [OF store_sightings v(2), of ?vs] i r
    by (simp add: c validationThreshold_def sighting0_def)
  ultimately show ?thesis by (rule conjI)
qed

text \<open>
  C5 as stated fails: three validations verify a sighting without media, and deleting one
  of them sets it back to unverified.
\<close>

theorem verified_regresses_counterexample:
  "map_option status
     (sightings (apply_validation_ops
        [InsertValidation (validation_by device_a), InsertValidation (validation_by device_b),
         InsertValidation (validation_by device_c)] (store sighting0 [])) ''s1'')
     = Some Verified
   \<and> map_option status
     (sightings (apply_validation_ops
        [InsertValidation (validation_by device_a), InsertValidation (validation_by device_b),
         InsertValidation (validation_by device_c), DeleteValidation 0] (store sighting0 [])) ''s1'')
     = Some Unverified"
  by code_simp

section \<open>Properties of the validation handler\<close>

lemma insert_drawer_row:
  "insert_validation (drawer_row sid user f) d =
     (if \<not> (16 \<le> length f \<and> length f \<le> 256) then Inl insufficient_privilege
      else if rows_of_device sid f (validations d) \<noteq> [] then Inl unique_violation
      else if sightings d sid = None then Inl foreign_key_violation
      else if \<not> validator_account_exists user d then Inl foreign_key_violation
      else Inr (recompute_sighting_validations sid
                 (d\<lparr>validations := validations d @ [drawer_row sid user f]\<rparr>)))"
  by (auto simp: insert_validation_def drawer_row_def validations_insert_anon_def
        char_length_between_def validations_device_fingerprint_len_chk_def
        validations_validator_hash_len_chk_def collides_device_per_sighting_def
        collides_hash_per_sighting_def rows_of_device_def list_ex_iff filter_empty_conv)

lemma handleValidate_in_range:
  assumes "\<not> validating ui" and "\<not> validationSuccess ui"
    and "near userLat userLng (lat s) (lng s) 500"
  shows "handleValidate near (Some (sid, s)) user (Inr (userLat, userLng)) (Some f) ui d =
     (case insert_validation (drawer_row sid user f) d of
        Inl error \<Rightarrow>
          (ui\<lparr>validating := False,
              validationError := Some (if error = unique_violation then DUPLICATE_DEVICE
                                       else FAILED (PostgrestError error))\<rparr>, d)
      | Inr d' \<Rightarrow> (ui\<lparr>validating := False, validationError := None, validationSuccess := True\<rparr>, d'))"
  using assms
  by (simp add: handleValidate_def drawer_row_def Let_def split: sum.splits)

lemma handleValidate_out_of_range:
  assumes "\<not> validating ui" and "\<not> validationSuccess ui"
    and "\<not> near userLat userLng (lat s) (lng s) 500"
  shows "handleValidate near (Some (sid, s)) user (Inr (userLat, userLng)) fp ui d =
     (ui\<lparr>validating := False, validationError := Some OUT_OF_RANGE\<rparr>, d)"
  using assms
  by (simp add: handleValidate_def Let_def)

lemma insert_validation_keeps_unique:
  assumes "unique_device_per_sighting (validations d)"
    and "insert_validation new d = Inr d'"
  shows "unique_device_per_sighting (validations d')"
proof -
  have v: "validations d' = validations d @ [new]"
    using assms(2)
    by (auto simp: insert_validation_def recompute_validations split: if_splits)
  have c: "\<not> collides_device_per_sighting new (validations d)"
    using assms(2) by (auto simp: insert_validation_def split: if_splits)
  show ?thesis
  proof (cases "device_fingerprint new")
    case None
    with v assms(1) show ?thesis by (simp add: unique_device_per_sighting_def)
  next
    case (Some f)
    with c have "\<forall>r \<in> set (validations d). \<not> (sighting_id r = sighting_id new \<and> device_fingerprint r = Some f)"
      by (simp add: collides_device_per_sighting_def list_ex_iff)
    with Some v assms(1) show ?thesis
      by (auto simp: unique_device_per_sighting_def)
  qed
qed

lemma delete_validation_keeps_unique:
  assumes "unique_device_per_sighting (validations d)"
  shows "unique_device_per_sighting (validations (delete_validation i d))"
proof (cases "i < length (validations d)")
  case False
  with assms show ?thesis by (simp add: delete_validation_def)
next
  case True
  let ?f = "\<lambda>r. (sighting_id r, device_fingerprint r)"
  let ?P = "\<lambda>r. device_fingerprint r \<noteq> None"
  have "validations d = take i (validations d) @ validations d ! i # drop (Suc i) (validations d)"
    using True by (rule id_take_nth_drop)
  then have "distinct (map ?f (filter ?P (take i (validations d) @ validations d ! i # drop (Suc i) (validations d))))"
    using assms by (simp add: unique_device_per_sighting_def)
  then have "distinct (map ?f (filter ?P (take i (validations d) @ drop (Suc i) (validations d))))"
    by (auto split: if_splits)
  with True show ?thesis
    by (simp add: delete_validation_def recompute_validations unique_device_per_sighting_def)
qed

lemma distinct_map_filter_key:
  "distinct (map g xs) \<Longrightarrow> length (filter (\<lambda>x. g x = k) xs) \<le> 1"
proof (induction xs)
  case Nil
  then show ?case by simp
next
  case (Cons x xs)
  show ?case
  proof (cases "g x = k")
    case True
    from Cons.prems have "g x \<notin> g ` set xs" by simp
    with True have "\<forall>y \<in> set xs. g y \<noteq> k" by (metis imageI)
    then have "filter (\<lambda>x. g x = k) xs = []" by (simp add: filter_empty_conv)
    with True show ?thesis by simp
  next
    case False
    with Cons show ?thesis by simp
  qed
qed

lemma unique_device_at_most_one:
  assumes "unique_device_per_sighting rows"
  shows "length (rows_of_device sid f rows) \<le> 1"
proof -
  let ?P = "\<lambda>r. device_fingerprint r \<noteq> None"
  let ?g = "\<lambda>r. (sighting_id r, device_fingerprint r)"
  have "rows_of_device sid f rows = filter (\<lambda>r. ?g r = (sid, Some f)) (filter ?P rows)"
    by (auto simp: rows_of_device_def intro: filter_cong)
  moreover have "length (filter (\<lambda>r. ?g r = (sid, Some f)) (filter ?P rows)) \<le> 1"
    using assms unfolding unique_device_per_sighting_def by (rule distinct_map_filter_key)
  ultimately show ?thesis by simp
qed

lemma insert_validation_result:
  "insert_validation new d = Inr d' \<Longrightarrow>
   d' = recompute_sighting_validations (sighting_id new) (d\<lparr>validations := validations d @ [new]\<rparr>)"
  by (simp add: insert_validation_def split: if_splits)

lemma handleValidate_store:
  "snd (handleValidate near sighting user position fp ui d) = d \<or>
   (\<exists>sid s f. sighting = Some (sid, s) \<and> fp = Some f \<and>
      insert_validation (drawer_row sid user f) d
        = Inr (snd (handleValidate near sighting user position fp ui d)))"
  by (simp add: handleValidate_def Let_def drawer_row_def
           split: option.splits sum.splits prod.splits)

text \<open>The concrete calls on which the theorems are instantiated.\<close>

lemma store_present: "sightings (store s vs) ''s1'' \<noteq> None"
  by (simp add: store_def)

lemma device_a_length: "16 \<le> length device_a \<and> length device_a \<le> 256"
  by (simp add: device_a_def)

lemma near_origin: "grid_proximity 0 0 (lat sighting0) (lng sighting0) 500"
  by (simp add: grid_proximity_def sighting0_def)

lemma near_100m: "grid_proximity (1 / 1000) 0 (lat sighting0) (lng sighting0) 500"
  by (simp add: grid_proximity_def sighting0_def)

lemma far_1deg: "\<not> grid_proximity 1 0 (lat sighting0) (lng sighting0) 500"
  by (simp add: grid_proximity_def sighting0_def)

lemma fresh_init: "\<not> validating drawer_init" "\<not> validationSuccess drawer_init"
  by (simp_all add: drawer_init_def)

lemma store_accounts:
  "validator_account_exists None (store s vs)"
  "validator_account_exists (Some ''u_anon'') (store s vs)"
  "\<not> validator_account_exists (Some ''u_ghost'') (store s vs)"
  by (simp_all add: validator_account_exists_def store_def)

lemma store_unique_empty: "unique_device_per_sighting (validations (store s []))"
  by (simp add: store_def unique_device_per_sighting_def)

lemma store_no_rows: "rows_of_device sid f (validations (store s [])) = []"
  by (simp add: store_def rows_of_device_def)

lemma first_validation:
  "handleValidate grid_proximity (Some (''s1'', sighting0)) (Some ''u_anon'') (Inr (0, 0))
        (Some device_a) drawer_init (store sighting0 [])
     = (drawer_init\<lparr>validationSuccess := True\<rparr>,
        store (sighting0\<lparr>validations_count := 1\<rparr>)
          [drawer_row ''s1'' (Some ''u_anon'') device_a])"
  using handleValidate_in_range [where near = grid_proximity and ui = drawer_init
          and s = sighting0 and userLat = 0 and userLng = 0 and sid = "''s1''"
          and user = "Some ''u_anon''" and f = device_a and d = "store sighting0 []",
          OF fresh_init near_origin]
  by (simp add: insert_drawer_row device_a_length store_present rows_of_device_def
        store_validations store_accounts)
     (simp add: drawer_init_def store_def recompute_sighting_validations_def
        count_validations_def status_case_def sighting0_def drawer_row_def Let_def)

lemma second_validation:
  "handleValidate grid_proximity (Some (''s1'', sighting0)) None (Inr (1 / 1000, 0))
        (Some device_a) drawer_init
        (store (sighting0\<lparr>validations_count := 1\<rparr>)
           [drawer_row ''s1'' (Some ''u_anon'') device_a])
     = (drawer_init\<lparr>validationError := Some DUPLICATE_DEVICE\<rparr>,
        store (sighting0\<lparr>validations_count := 1\<rparr>)
          [drawer_row ''s1'' (Some ''u_anon'') device_a])"
proof -
  have "rows_of_device ''s1'' device_a [drawer_row ''s1'' (Some ''u_anon'') device_a] \<noteq> []"
    by (simp add: rows_of_device_def drawer_row_def)
  then have "insert_validation (drawer_row ''s1'' None device_a)
          (store (sighting0\<lparr>validations_count := 1\<rparr>)
             [drawer_row ''s1'' (Some ''u_anon'') device_a])
        = Inl unique_violation"
    by (simp add: insert_drawer_row device_a_length store_validations)
  then show ?thesis
    using handleValidate_in_range [where near = grid_proximity and ui = drawer_init
          and s = sighting0 and userLat = "1 / 1000" and userLng = 0 and sid = "''s1''"
          and user = None and f = device_a
          and d = "store (sighting0\<lparr>validations_count := 1\<rparr>)
                     [drawer_row ''s1'' (Some ''u_anon'') device_a]",
          OF fresh_init near_100m]
    by (simp add: drawer_init_def)
qed

text \<open>
  A session whose account no longer exists: the foreign key refuses the row, the drawer
  reports the failure, and nothing is recorded.
\<close>

lemma ghost_validation:
  "handleValidate grid_proximity (Some (''s1'', sighting0)) (Some ''u_ghost'') (Inr (0, 0))
        (Some device_a) drawer_init (store sighting0 [])
     = (drawer_init\<lparr>validationError := Some (FAILED (PostgrestError foreign_key_violation))\<rparr>,
        store sighting0 [])"
  using handleValidate_in_range [where near = grid_proximity and ui = drawer_init
          and s = sighting0 and userLat = 0 and userLng = 0 and sid = "''s1''"
          and user = "Some ''u_ghost''" and f = device_a and d = "store sighting0 []",
          OF fresh_init near_origin]
  by (simp add: insert_drawer_row device_a_length store_present rows_of_device_def
        store_validations store_accounts)
     (simp add: drawer_init_def)

lemma far_validation:
  "handleValidate grid_proximity (Some (''s1'', sighting0)) (Some ''u_anon'') (Inr (1, 0))
        (Some device_a) drawer_init (store sighting0 [])
     = (drawer_init\<lparr>validationError := Some OUT_OF_RANGE\<rparr>, store sighting0 [])"
  using handleValidate_out_of_range [where near = grid_proximity and ui = drawer_init
          and s = sighting0 and userLat = 1 and userLng = 0 and sid = "''s1''"
          and user = "Some ''u_anon''" and fp = "Some device_a" and d = "store sighting0 []",
          OF fresh_init far_1deg]
  by (simp add: drawer_init_def)

text \<open>
  C3. On a store that respects the unique index, two submissions for the same sighting
  with the same device fingerprint, each from a fresh drawer and within range, whatever
  the observers' positions and sessions, as long as the session of the one that comes
  first is anonymous or of an account that exists: the first is recorded, the second is
  answered with \<open>DUPLICATE_DEVICE\<close> and changes nothing. Afterwards the pair has exactly
  one row, and no pair of sighting and fingerprint has more than one. The two submissions
  are arbitrary, so either of them may be the one that comes first.
\<close>

theorem one_validation_per_device:
  assumes inv: "unique_device_per_sighting (validations d)"
    and present: "sightings d sid \<noteq> None"
    and len: "16 \<le> length f" "length f \<le> 256"
    and new: "rows_of_device sid f (validations d) = []"
    and account1: "validator_account_exists user1 d"
    and fresh1: "\<not> validating ui1" "\<not> validationSuccess ui1"
    and fresh2: "\<not> validating ui2" "\<not> validationSuccess ui2"
    and near1: "near lat1 lng1 (lat s1) (lng s1) 500"
    and near2: "near lat2 lng2 (lat s2) (lng s2) 500"
    and first: "handleValidate near (Some (sid, s1)) user1 (Inr (lat1, lng1)) (Some f) ui1 d = (ui1', d1)"
    and second: "handleValidate near (Some (sid, s2)) user2 (Inr (lat2, lng2)) (Some f) ui2 d1 = (ui2', d2)"
  shows "validationSuccess ui1' \<and> validationError ui1' = None
       \<and> \<not> validationSuccess ui2' \<and> validationError ui2' = Some DUPLICATE_DEVICE
       \<and> d2 = d1
       \<and> rows_of_device sid f (validations d1) = [drawer_row sid user1 f]
       \<and> unique_device_per_sighting (validations d1)
       \<and> (\<forall>sid' f'. length (rows_of_device sid' f' (validations d1)) \<le> 1)"
proof -
  let ?d1 = "recompute_sighting_validations sid
               (d\<lparr>validations := validations d @ [drawer_row sid user1 f]\<rparr>)"
  have ins1: "insert_validation (drawer_row sid user1 f) d = Inr ?d1"
    using present len new account1 by (simp add: insert_drawer_row)
  have r1: "(ui1', d1) =
      (ui1\<lparr>validating := False, validationError := None, validationSuccess := True\<rparr>, ?d1)"
    using first ins1
      handleValidate_in_range [where near = near and ui = ui1 and s = s1 and userLat = lat1
        and userLng = lng1 and sid = sid and user = user1 and f = f and d = d,
        OF fresh1 near1]
    by simp
  then have d1: "d1 = ?d1" and ui1': "ui1' = ui1\<lparr>validating := False, validationError := None, validationSuccess := True\<rparr>"
    by simp_all
  have v1: "validations d1 = validations d @ [drawer_row sid user1 f]"
    by (simp add: d1 recompute_validations)
  have rows1: "rows_of_device sid f (validations d1) = [drawer_row sid user1 f]"
    using new by (simp add: v1 rows_of_device_def drawer_row_def)
  have ins2: "insert_validation (drawer_row sid user2 f) d1 = Inl unique_violation"
    using len rows1 by (simp add: insert_drawer_row)
  have r2: "(ui2', d2) = (ui2\<lparr>validating := False, validationError := Some DUPLICATE_DEVICE\<rparr>, d1)"
    using second ins2
      handleValidate_in_range [where near = near and ui = ui2 and s = s2 and userLat = lat2
        and userLng = lng2 and sid = sid and user = user2 and f = f and d = d1,
        OF fresh2 near2]
    by simp
  have u1: "unique_device_per_sighting (validations d1)"
    using inv ins1 d1 by (simp add: insert_validation_keeps_unique)
  have "validationSuccess ui1' \<and> validationError ui1' = None" by (simp add: ui1')
  moreover have "\<not> validationSuccess ui2' \<and> validationError ui2' = Some DUPLICATE_DEVICE"
    using r2 fresh2 by simp
  moreover have "d2 = d1" using r2 by simp
  moreover have "\<forall>sid' f'. length (rows_of_device sid' f' (validations d1)) \<le> 1"
    using unique_device_at_most_one [OF u1] by blast
  ultimately show ?thesis using rows1 u1 by simp
qed

theorem one_validation_per_device_witness:
  "handleValidate grid_proximity (Some (''s1'', sighting0)) (Some ''u_anon'') (Inr (0, 0))
        (Some device_a) drawer_init (store sighting0 [])
     = (drawer_init\<lparr>validationSuccess := True\<rparr>,
        store (sighting0\<lparr>validations_count := 1\<rparr>)
          [drawer_row ''s1'' (Some ''u_anon'') device_a])
   \<and> handleValidate grid_proximity (Some (''s1'', sighting0)) None (Inr (1 / 1000, 0))
        (Some device_a) drawer_init
        (store (sighting0\<lparr>validations_count := 1\<rparr>)
           [drawer_row ''s1'' (Some ''u_anon'') device_a])
     = (drawer_init\<lparr>validationError := Some DUPLICATE_DEVICE\<rparr>,
        store (sighting0\<lparr>validations_count := 1\<rparr>)
          [drawer_row ''s1'' (Some ''u_anon'') device_a])
   \<and> rows_of_device ''s1'' device_a
        (validations (store (sighting0\<lparr>validations_count := 1\<rparr>)
                        [drawer_row ''s1'' (Some ''u_anon'') device_a]))
        = [drawer_row ''s1'' (Some ''u_anon'') device_a]
   \<and> unique_device_per_sighting
        (validations (store (sighting0\<lparr>validations_count := 1\<rparr>)
                        [drawer_row ''s1'' (Some ''u_anon'') device_a]))"
  using first_validation second_validation
    one_validation_per_device [where near = grid_proximity,
      OF store_unique_empty store_present device_a_length [THEN conjunct1]
         device_a_length [THEN conjunct2] store_no_rows store_accounts(2) fresh_init fresh_init
         near_origin near_100m first_validation second_validation]
  by simp

text \<open>
  C4. An observer out of range is answered with \<open>OUT_OF_RANGE\<close> before any insert is
  attempted, whatever the store holds: the store is left as it was, and the drawer is left
  such that every later attempt runs exactly as if the refused one had not happened. In
  particular a later attempt within range, by a device that has no row for the sighting
  yet and in a session that is anonymous or of an account that exists, is recorded.
\<close>

theorem out_of_range_records_nothing:
  assumes fresh: "\<not> validating ui" "\<not> validationSuccess ui"
    and far: "\<not> near userLat userLng (lat s) (lng s) 500"
    and rejected: "handleValidate near (Some (sid, s)) user (Inr (userLat, userLng)) fp ui d = (ui', d')"
  shows "validationError ui' = Some OUT_OF_RANGE \<and> \<not> validationSuccess ui' \<and> \<not> validating ui'
       \<and> d' = d
       \<and> (\<forall>s2 user2 position2 fp2.
             handleValidate near (Some (sid, s2)) user2 position2 fp2 ui' d'
               = handleValidate near (Some (sid, s2)) user2 position2 fp2 ui d)
       \<and> (\<forall>lat2 lng2 user2 f.
             near lat2 lng2 (lat s) (lng s) 500 \<and> 16 \<le> length f \<and> length f \<le> 256
               \<and> sightings d sid \<noteq> None \<and> rows_of_device sid f (validations d) = []
               \<and> validator_account_exists user2 d
             \<longrightarrow> handleValidate near (Some (sid, s)) user2 (Inr (lat2, lng2)) (Some f) ui' d'
                   = (ui\<lparr>validating := False, validationError := None, validationSuccess := True\<rparr>,
                      recompute_sighting_validations sid
                        (d\<lparr>validations := validations d @ [drawer_row sid user2 f]\<rparr>)))"
proof -
  have r: "(ui', d') = (ui\<lparr>validating := False, validationError := Some OUT_OF_RANGE\<rparr>, d)"
    using rejected
      handleValidate_out_of_range [where near = near and ui = ui and s = s
        and userLat = userLat and userLng = userLng and sid = sid and user = user
        and fp = fp and d = d, OF fresh far]
    by simp
  then have ui': "ui' = ui\<lparr>validating := False, validationError := Some OUT_OF_RANGE\<rparr>"
    and d': "d' = d" by simp_all
  have same: "handleValidate near (Some (sid, s2)) user2 position2 fp2 ui' d'
               = handleValidate near (Some (sid, s2)) user2 position2 fp2 ui d"
    for s2 user2 position2 fp2
    using fresh by (simp add: ui' d' handleValidate_def Let_def)
  have retry: "handleValidate near (Some (sid, s)) user2 (Inr (lat2, lng2)) (Some f) ui' d'
                   = (ui\<lparr>validating := False, validationError := None, validationSuccess := True\<rparr>,
                      recompute_sighting_validations sid
                        (d\<lparr>validations := validations d @ [drawer_row sid user2 f]\<rparr>))"
    if "near lat2 lng2 (lat s) (lng s) 500" and "16 \<le> length f" and "length f \<le> 256"
      and "sightings d sid \<noteq> None" and "rows_of_device sid f (validations d) = []"
      and "validator_account_exists user2 d"
    for lat2 lng2 user2 f
  proof -
    have ins: "insert_validation (drawer_row sid user2 f) d =
                 Inr (recompute_sighting_validations sid
                        (d\<lparr>validations := validations d @ [drawer_row sid user2 f]\<rparr>))"
      using that(2-6) by (simp add: insert_drawer_row)
    show ?thesis
      using ins
        handleValidate_in_range [where near = near and ui = ui and s = s and userLat = lat2
          and userLng = lng2 and sid = sid and user = user2 and f = f and d = d,
          OF fresh that(1)]
      by (simp add: same)
  qed
  have "validationError ui' = Some OUT_OF_RANGE \<and> \<not> validationSuccess ui' \<and> \<not> validating ui'"
    using fresh by (simp add: ui')
  with d' same retry show ?thesis by blast
qed

theorem out_of_range_records_nothing_witness:
  "handleValidate grid_proximity (Some (''s1'', sighting0)) (Some ''u_anon'') (Inr (1, 0))
        (Some device_a) drawer_init (store sighting0 [])
     = (drawer_init\<lparr>validationError := Some OUT_OF_RANGE\<rparr>, store sighting0 [])
   \<and> handleValidate grid_proximity (Some (''s1'', sighting0)) (Some ''u_anon'') (Inr (0, 0))
        (Some device_a) (drawer_init\<lparr>validationError := Some OUT_OF_RANGE\<rparr>)
        (store sighting0 [])
     = (drawer_init\<lparr>validationSuccess := True\<rparr>,
        store (sighting0\<lparr>validations_count := 1\<rparr>)
          [drawer_row ''s1'' (Some ''u_anon'') device_a])"
proof -
  have "\<forall>s2 user2 position2 fp2.
          handleValidate grid_proximity (Some (''s1'', s2)) user2 position2 fp2
            (drawer_init\<lparr>validationError := Some OUT_OF_RANGE\<rparr>) (store sighting0 [])
          = handleValidate grid_proximity (Some (''s1'', s2)) user2 position2 fp2
              drawer_init (store sighting0 [])"
    using out_of_range_records_nothing [where near = grid_proximity,
            OF fresh_init far_1deg far_validation]
    by blast
  then have "handleValidate grid_proximity (Some (''s1'', sighting0)) (Some ''u_anon'')
        (Inr (0, 0)) (Some device_a) (drawer_init\<lparr>validationError := Some OUT_OF_RANGE\<rparr>)
        (store sighting0 [])
     = handleValidate grid_proximity (Some (''s1'', sighting0)) (Some ''u_anon'') (Inr (0, 0))
        (Some device_a) drawer_init (store sighting0 [])"
    by blast
  with far_validation first_validation show ?thesis by simp
qed

lemma handleValidate_records_drawer_row:
  assumes "handleValidate near sighting user position fp ui d = (ui', d')"
  shows "d' = d \<or>
         (\<exists>sid s f. sighting = Some (sid, s) \<and> fp = Some f \<and>
            validations d' = validations d @ [drawer_row sid user f] \<and>
            d' = recompute_sighting_validations sid
                   (d\<lparr>validations := validations d @ [drawer_row sid user f]\<rparr>))"
proof -
  have s: "snd (handleValidate near sighting user position fp ui d) = d'"
    using assms by simp
  show ?thesis
  proof (cases "d' = d")
    case True
    then show ?thesis by simp
  next
    case False
    with s handleValidate_store [of near sighting user position fp ui d]
    obtain sid s f where a: "sighting = Some (sid, s)" and b: "fp = Some f"
      and c: "insert_validation (drawer_row sid user f) d = Inr d'"
      by auto
    from insert_validation_result [OF c]
    have d: "d' = recompute_sighting_validations sid
                    (d\<lparr>validations := validations d @ [drawer_row sid user f]\<rparr>)"
      by (simp add: drawer_row_def)
    then have "validations d' = validations d @ [drawer_row sid user f]"
      by (simp add: recompute_validations)
    with a b d show ?thesis by simp
  qed
qed

lemma legacy_store_cases:
  "snd (snd (handleValidate_legacy ins near rnd sighting position b u k now ui d)) = d \<or>
   (\<exists>userLat userLng.
      ins \<lparr>sighting_id = fst sighting,
           validator_hash = Some (fst (generateValidatorHash (fst sighting) b u k now)),
           validator_lat = Some (rnd userLat), validator_lng = Some (rnd userLng),
           validator_id = None, device_fingerprint = None, is_within_range = True\<rparr> d
        = Inr (snd (snd (handleValidate_legacy ins near rnd sighting position b u k now ui d))))"
  by (simp add: handleValidate_legacy_def Let_def split: prod.splits sum.splits) blast

text \<open>
  Against the migrated store the earlier drawer records nothing: its row has no
  \<^verbatim>\<open>device_fingerprint\<close>, which the insert policy refuses.
\<close>

lemma legacy_never_recorded_after_migration:
  "snd (snd (handleValidate_legacy insert_validation near rnd sighting position b u k now ui d))
     = d"
  using legacy_store_cases [of insert_validation near rnd sighting position b u k now ui d]
  by (auto simp: insert_validation_def validations_insert_anon_def)

lemma no_coordinates_append:
  "no_coordinates (rows @ [drawer_row sid user f]) = no_coordinates rows"
  by (simp add: no_coordinates_def drawer_row_def)

lemma submit_keeps_no_coordinates:
  assumes "no_coordinates (validations d)"
  shows "no_coordinates (validations (submit near rnd x d))"
proof (cases x)
  case (CurrentDrawer sighting user position fp ui)
  obtain ui' d' where r: "handleValidate near sighting user position fp ui d = (ui', d')"
    by (cases "handleValidate near sighting user position fp ui d")
  from handleValidate_records_drawer_row [OF r] assms
  have "no_coordinates (validations d')"
    by (auto simp: no_coordinates_append)
  with r CurrentDrawer show ?thesis by simp
next
  case (EarlierDrawer sighting position b u k now ui)
  with assms show ?thesis
    by (simp add: legacy_never_recorded_after_migration)
qed

lemma submit_all_keeps_no_coordinates:
  "no_coordinates (validations d) \<Longrightarrow>
   no_coordinates (validations (submit_all near rnd history d))"
  by (induction history arbitrary: d) (simp_all add: submit_keeps_no_coordinates)

text \<open>
  C7. Starting from validation rows without coordinates, no history of submissions,
  through the current drawer or through the earlier one, leaves a row with a latitude or
  a longitude in the (migrated) store. One call of the current \<^verbatim>\<open>handleValidate\<close> either
  leaves the store as it was or adds one row whose coordinate columns are \<^verbatim>\<open>NULL\<close> and
  whose only trace of the observer's position is \<open>is_within_range = True\<close>, the new
  store being determined by the sighting id, the session and the fingerprint, not by the
  position. One call of the earlier \<^verbatim>\<open>handleValidate\<close>, which sends the coordinates
  rounded to two decimals, records nothing.
\<close>

theorem no_coordinates_recorded:
  assumes "no_coordinates (validations d)"
  shows "no_coordinates (validations (submit_all near round_2dp history d))
       \<and> (\<forall>sighting user position fp ui.
            snd (handleValidate near sighting user position fp ui d) = d \<or>
            (\<exists>sid s f. sighting = Some (sid, s) \<and> fp = Some f \<and>
               snd (handleValidate near sighting user position fp ui d) =
                 recompute_sighting_validations sid
                   (d\<lparr>validations := validations d @
                      [\<lparr>sighting_id = sid, validator_hash = None, validator_lat = None,
                        validator_lng = None, validator_id = user,
                        device_fingerprint = Some f, is_within_range = True\<rparr>]\<rparr>)))
       \<and> (\<forall>sighting position b randomUUID now_token now ui.
            snd (snd (handleValidate_legacy insert_validation near round_2dp sighting position
                        b randomUUID now_token now ui d)) = d)"
proof -
  have one: "snd (handleValidate near sighting user position fp ui d) = d \<or>
            (\<exists>sid s f. sighting = Some (sid, s) \<and> fp = Some f \<and>
               snd (handleValidate near sighting user position fp ui d) =
                 recompute_sighting_validations sid
                   (d\<lparr>validations := validations d @
                      [\<lparr>sighting_id = sid, validator_hash = None, validator_lat = None,
                        validator_lng = None, validator_id = user,
                        device_fingerprint = Some f, is_within_range = True\<rparr>]\<rparr>))"
    for sighting user position fp ui
  proof -
    obtain ui' d' where r: "handleValidate near sighting user position fp ui d = (ui', d')"
      by (cases "handleValidate near sighting user position fp ui d")
    from handleValidate_records_drawer_row [OF r] r show ?thesis
      by (auto simp: drawer_row_def)
  qed
  from assms have "no_coordinates (validations (submit_all near round_2dp history d))"
    by (rule submit_all_keeps_no_coordinates)
  with one legacy_never_recorded_after_migration show ?thesis by blast
qed

theorem no_coordinates_recorded_witness:
  "validations (submit_all grid_proximity exact_round_2dp
      [CurrentDrawer (Some (''s1'', sighting0)) (Some ''u_anon'') (Inr (0, 0)) (Some device_a)
         drawer_init,
       EarlierDrawer (''s1'', sighting0) (Inr (0, 0)) browser0 [] 0 clock0 drawer_init]
      (store sighting0 []))
     = [drawer_row ''s1'' (Some ''u_anon'') device_a]
   \<and> no_coordinates (validations (submit_all grid_proximity exact_round_2dp
      [CurrentDrawer (Some (''s1'', sighting0)) (Some ''u_anon'') (Inr (0, 0)) (Some device_a)
         drawer_init,
       EarlierDrawer (''s1'', sighting0) (Inr (0, 0)) browser0 [] 0 clock0 drawer_init]
      (store sighting0 [])))"
proof -
  have e: "no_coordinates (validations (store sighting0 []))"
    by (simp add: no_coordinates_def store_validations)
  have "validations (submit_all grid_proximity exact_round_2dp
      [CurrentDrawer (Some (''s1'', sighting0)) (Some ''u_anon'') (Inr (0, 0)) (Some device_a)
         drawer_init,
       EarlierDrawer (''s1'', sighting0) (Inr (0, 0)) browser0 [] 0 clock0 drawer_init]
      (store sighting0 []))
     = [drawer_row ''s1'' (Some ''u_anon'') device_a]"
    by (simp add: first_validation legacy_never_recorded_after_migration store_validations)
  with no_coordinates_recorded [OF e] show ?thesis by blast
qed

section \<open>Properties of the confirm handler\<close>

text \<open>
  Reading \<^verbatim>\<open>profiles\<close> as a signed-in caller expands \<^verbatim>\<open>profiles_select_own_or_admin\<close>,
  whose sub-select reads \<^verbatim>\<open>profiles\<close> again: the statement is refused with 42P17. The
  other two tables are read without error.
\<close>

lemma read_profiles_under_rls: "read_under_rls Profiles = Some invalid_object_definition"
  by (simp add: read_under_rls_def numeral_3_eq_3)

lemma read_others_under_rls:
  "read_under_rls Sightings = None" "read_under_rls Validations = None"
  by (simp_all add: read_under_rls_def numeral_3_eq_3)

lemma update_sighting_status_signed_in:
  "update_sighting_status (Some u) sid new_status d = Inl invalid_object_definition"
  by (simp add: update_sighting_status_def sightings_update_trusted_def
        read_profiles_under_rls)

lemma update_sighting_status_anon:
  "update_sighting_status None sid new_status d = Inr d"
  by (simp add: update_sighting_status_def)


lemma handleConfirm_anon:
  assumes "\<not> confirming ui" and "\<not> confirmSuccess ui"
  shows "handleConfirm (Some (sid, s)) None ui d =
           (ui\<lparr>confirming := False, confirmError := None, confirmSuccess := True\<rparr>, d)"
  using assms by (simp add: handleConfirm_def Let_def update_sighting_status_anon)

lemma handleConfirm_store: "snd (handleConfirm sighting user ui d) = d"
  by (cases user)
     (simp_all add: handleConfirm_def Let_def update_sighting_status_signed_in
        update_sighting_status_anon split: option.splits prod.splits)



section \<open>Properties of the validator hash\<close>

lemma digits_radix_unfold:
  "digits_radix b n =
     (if b < 2 \<or> n < b then [digit_char (nat n)]
      else digits_radix b (n div b) @ [digit_char (nat (n mod b))])"
  by (rule digits_radix.simps)

lemma digits_radix_length:
  "2 \<le> b \<Longrightarrow> 0 \<le> n \<Longrightarrow> n < b ^ Suc k \<Longrightarrow> length (digits_radix b n) \<le> Suc k"
proof (induction k arbitrary: n)
  case 0
  then show ?case by (simp add: digits_radix_unfold [of b n])
next
  case (Suc k)
  show ?case
  proof (cases "n < b")
    case True
    then show ?thesis by (simp add: digits_radix_unfold [of b n])
  next
    case False
    have "b * (n div b) + n mod b = n" by simp
    moreover have "0 \<le> n mod b" using Suc.prems(1) by simp
    moreover have "n < b * b ^ Suc k" using Suc.prems(3) by simp
    ultimately have "b * (n div b) < b * b ^ Suc k" by linarith
    then have "n div b < b ^ Suc k"
      using Suc.prems(1) by (simp add: mult_less_cancel_left_pos)
    moreover have "0 \<le> n div b"
      using Suc.prems by (simp add: pos_imp_zdiv_nonneg_iff)
    ultimately have "length (digits_radix b (n div b)) \<le> Suc k"
      using Suc.IH Suc.prems(1) by blast
    with False Suc.prems(1) show ?thesis
      by (simp add: digits_radix_unfold [of b n])
  qed
qed

lemma abs_sint_bound: "\<bar>sint (w :: 32 word)\<bar> \<le> 2 ^ 31"
  using sint_ge [of w] sint_lt [of w] by simp

text \<open>
  The hash part has at most six digits (\<open>2 ^ 31 < 36 ^ 6\<close>) and the clock has eight
  until the year 2059 and nine until 5188, so the result never reaches 16 characters
  before then.
\<close>

lemma generateValidatorHash_length:
  assumes "0 \<le> now" and "now < 36 ^ 9"
  shows "length (fst (generateValidatorHash sightingId b randomUUID now_token now)) \<le> 15"
proof -
  obtain t b' where g: "get_or_create_token b randomUUID now_token = (t, b')"
    by (cases "get_or_create_token b randomUUID now_token")
  let ?h = "\<bar>sint (hash_loop (t @ '':'' @ sightingId) 0)\<bar>"
  have "?h < 36 ^ Suc 5"
    using abs_sint_bound [of "hash_loop (t @ '':'' @ sightingId) 0"] by simp
  then have "length (digits_radix 36 ?h) \<le> Suc 5"
    by (intro digits_radix_length) simp_all
  moreover have "length (digits_radix 36 now) \<le> Suc 8"
    using assms by (intro digits_radix_length) simp_all
  ultimately show ?thesis
    using assms(1) by (simp add: generateValidatorHash_def g toString_radix_def Let_def)
qed

lemma digit_char_inj:
  assumes "i < 36" and "j < 36" and "digit_char i = digit_char j"
  shows "i = j"
proof -
  have "distinct ''0123456789abcdefghijklmnopqrstuvwxyz''" by simp
  moreover have "length ''0123456789abcdefghijklmnopqrstuvwxyz'' = 36" by simp
  ultimately show ?thesis
    using assms by (simp add: digit_char_def nth_eq_iff_index_eq)
qed

lemma digits_radix_nonempty: "digits_radix b n \<noteq> []"
  by (simp add: digits_radix_unfold [of b n])

lemma digits_radix_last:
  "2 \<le> b \<Longrightarrow> 0 \<le> n \<Longrightarrow> last (digits_radix b n) = digit_char (nat (n mod b))"
  by (simp add: digits_radix_unfold [of b n])

lemma digits_radix_butlast:
  "2 \<le> b \<Longrightarrow> butlast (digits_radix b n) = (if n < b then [] else digits_radix b (n div b))"
  by (simp add: digits_radix_unfold [of b n])

lemma digits_radix_inj:
  assumes "2 \<le> b" and "b \<le> 36"
  shows "0 \<le> n \<Longrightarrow> 0 \<le> m \<Longrightarrow> digits_radix b n = digits_radix b m \<Longrightarrow> n = m"
proof (induction "nat n" arbitrary: n m rule: less_induct)
  case less
  have b0: "0 < b" using assms(1) by simp
  have "digit_char (nat (n mod b)) = digit_char (nat (m mod b))"
    using less.prems assms(1) digits_radix_last [of b n] digits_radix_last [of b m] by simp
  moreover have "nat (n mod b) < 36" "nat (m mod b) < 36"
    using assms b0 pos_mod_bound [of b n] pos_mod_bound [of b m] by linarith+
  ultimately have "nat (n mod b) = nat (m mod b)"
    by (simp add: digit_char_inj)
  then have md: "n mod b = m mod b"
    using b0 pos_mod_sign [of b n] pos_mod_sign [of b m] by linarith
  have bl: "(if n < b then [] else digits_radix b (n div b))
              = (if m < b then [] else digits_radix b (m div b))"
    using less.prems(3) assms(1) digits_radix_butlast [of b n] digits_radix_butlast [of b m]
    by simp
  show ?case
  proof (cases "n < b")
    case True
    have "m < b"
    proof (rule ccontr)
      assume "\<not> m < b"
      with bl True have "[] = digits_radix b (m div b)" by simp
      then show False by (metis digits_radix_nonempty)
    qed
    with True md less.prems show ?thesis by simp
  next
    case False
    have mb: "\<not> m < b"
    proof
      assume "m < b"
      with bl False have "digits_radix b (n div b) = []" by simp
      then show False by (metis digits_radix_nonempty)
    qed
    with False bl have eq: "digits_radix b (n div b) = digits_radix b (m div b)" by simp
    have "n div b < n" using False assms(1) by (simp add: int_div_less_self)
    moreover have "0 \<le> n div b" "0 \<le> m div b"
      using less.prems b0 by (simp_all add: pos_imp_zdiv_nonneg_iff)
    ultimately have "n div b = m div b"
      using less.hyps [of "n div b" "m div b"] eq less.prems(1) by simp
    with md show ?thesis
      by (metis mult_div_mod_eq)
  qed
qed

lemma get_or_create_token_stored:
  "has_window b \<Longrightarrow> stored_token b = Some t \<Longrightarrow> t \<noteq> [] \<Longrightarrow>
   get_or_create_token b randomUUID now_token = (t, b)"
  by (cases t) (simp_all add: get_or_create_token_def)

text \<open>
  With a token in place, two calls for the same sighting return the same string only if
  the clock reads the same millisecond in both.
\<close>

lemma generateValidatorHash_follows_clock:
  assumes "has_window b" and "stored_token b = Some t" and "t \<noteq> []"
    and "0 \<le> now1" and "0 \<le> now2"
  shows "(fst (generateValidatorHash sightingId b u1 k1 now1)
            = fst (generateValidatorHash sightingId b u2 k2 now2)) = (now1 = now2)"
proof -
  have "digits_radix 36 now1 = digits_radix 36 now2 \<Longrightarrow> now1 = now2"
    using assms(4,5) by (intro digits_radix_inj [of 36]) simp_all
  then show ?thesis
    using assms
    by (auto simp: generateValidatorHash_def get_or_create_token_stored toString_radix_def Let_def)
qed

text \<open>
  C8. \<^verbatim>\<open>generateValidatorHash\<close> misses the length the schema demands of a
  \<^verbatim>\<open>validator_hash\<close>: for a stored token, a sighting id and the clock of 29 January 2026
  it returns 14 characters, which \<^verbatim>\<open>validations_validator_hash_len_chk\<close> refuses.
\<close>

theorem validator_hash_too_short:
  "fst (generateValidatorHash sighting_uuid browser0 [] 0 clock0) = ''cyfc8imkzxu000''
   \<and> length (fst (generateValidatorHash sighting_uuid browser0 [] 0 clock0)) = 14
   \<and> validations_validator_hash_len_chk
        \<lparr>sighting_id = sighting_uuid,
         validator_hash = Some (fst (generateValidatorHash sighting_uuid browser0 [] 0 clock0)),
         validator_lat = None, validator_lng = None, validator_id = None,
         device_fingerprint = None, is_within_range = True\<rparr> = False"
  by code_simp

text \<open>
  C9. \<^verbatim>\<open>generateValidatorHash\<close> is not stable: the same browser, with its token
  unchanged, gets a different string for the same sighting one millisecond later.
\<close>

theorem validator_hash_changes_with_clock:
  "generateValidatorHash sighting_uuid browser0 [] 0 clock0 = (''cyfc8imkzxu000'', browser0)
   \<and> generateValidatorHash sighting_uuid browser0 [] 0 (clock0 + 1)
        = (''cyfc8imkzxu001'', browser0)"
  by code_simp

section \<open>The earlier drawer against the v1 store\<close>

text \<open>
  Against the v1 store, for which it was written, the earlier \<^verbatim>\<open>handleValidate\<close> records
  nothing either while the clock is below \<open>36 ^ 9\<close> milliseconds: the v1 policy refuses
  its hash, which is too short. (A longer hash the v1 policy would accept, and with it the
  row's rounded coordinates; the migration replaces that policy.)
\<close>

lemma legacy_never_recorded_v1:
  assumes "0 \<le> now" and "now < 36 ^ 9"
  shows "snd (snd (handleValidate_legacy insert_validation_v1 near rnd sighting position
                     b u k now ui d)) = d"
proof -
  have "length (fst (generateValidatorHash (fst sighting) b u k now)) \<le> 15"
    using assms by (rule generateValidatorHash_length)
  then have "insert_validation_v1
         \<lparr>sighting_id = fst sighting,
          validator_hash = Some (fst (generateValidatorHash (fst sighting) b u k now)),
          validator_lat = Some (rnd userLat), validator_lng = Some (rnd userLng),
          validator_id = None, device_fingerprint = None, is_within_range = True\<rparr> d
        = Inl insufficient_privilege" for userLat userLng
    by (simp add: insert_validation_v1_def validations_insert_anon_v1_def char_length_between_def)
  then show ?thesis
    using legacy_store_cases [of insert_validation_v1 near rnd sighting position b u k now ui d]
    by auto
qed

end
